theory Spec2Isabelle
  imports Main "HOL-Library.Word"
begin

section \<open>Shared data model (scm\_interface.go)\<close>

text \<open>
  Go strings and byte slices are both sequences of bytes; an Isabelle \<open>string\<close> is a list
  of 8-bit characters, so both are modelled by it and the conversions \<open>[]byte(s)\<close> and
  \<open>string(b)\<close> are the identity. Go's \<open>int\<close> is the 64-bit machine integer of the
  target platform: \<open>+\<close> on it wraps around. Logging is not modelled: it changes neither
  a return value nor any effect the properties below speak about.
\<close>

type_synonym bytes = string
type_synonym go_int = "64 word"

text \<open>\<open>type SCMPlatform string\<close> with its three constants.\<close>

type_synonym SCMPlatform = string

definition PlatformGitHub :: SCMPlatform where
  "PlatformGitHub = ''github''"

definition PlatformBitbucket :: SCMPlatform where
  "PlatformBitbucket = ''bitbucket''"

definition PlatformUnknown :: SCMPlatform where
  "PlatformUnknown = ''unknown''"

text \<open>
  A Go \<open>error\<close> value: an error handed up by a collaborator (network, JSON decoder,
  token issuer), a fresh message, or \<open>fmt.Errorf("...: %w", err)\<close> wrapping another.
\<close>

datatype error = External string | Msg string | Wrapped string error

record NormalizedPR =
  pr_Number :: go_int
  pr_Title :: string
  pr_Description :: string
  pr_Author :: string
  pr_SourceBranch :: string
  pr_TargetBranch :: string
  pr_State :: string
  pr_URL :: string

record NormalizedRepository =
  repo_Name :: string
  repo_FullName :: string
  repo_Owner :: string
  repo_CloneURL :: string
  repo_HTMLURL :: string

record NormalizedFile =
  nf_Filename :: string
  nf_Status :: string
  nf_Additions :: go_int
  nf_Deletions :: go_int
  nf_Changes :: go_int
  nf_PreviousFilename :: string

text \<open>\<open>ReceivedAt\<close> is a \<open>time.Time\<close>; only its identity matters here, so it is a tick count.\<close>

record NormalizedEvent =
  ev_Platform :: SCMPlatform
  ev_EventType :: string
  ev_Action :: string
  ev_PR :: NormalizedPR
  ev_Repository :: NormalizedRepository
  ev_Files :: "NormalizedFile list"
  ev_RawPayload :: bytes
  ev_ReceivedAt :: nat

record RawWebhookMessage =
  rw_Platform :: SCMPlatform
  rw_EventType :: string
  rw_Payload :: bytes

definition rawEventsQueue :: string where
  "rawEventsQueue = ''raw_webhook_events''"

definition normalizedEventsQueue :: string where
  "normalizedEventsQueue = ''normalized_pr_events''"

section \<open>Platform router\<close>

text \<open>
  \<open>http.Header\<close> is \<open>map[string][]string\<close>. \<open>Header.Get\<close> returns the first value
  stored under the key and the empty string when there is none, so it cannot tell an
  absent header from one whose first value is empty. Go canonicalises the key on both
  sides (when the server stores a received header and inside \<open>Get\<close>); the model keeps
  the spelling of the source on both sides.
\<close>

type_synonym Header = "string \<rightharpoonup> string list"

definition Header_Get :: "Header \<Rightarrow> string \<Rightarrow> string" where
  "Header_Get h key = (case h key of None \<Rightarrow> '''' | Some [] \<Rightarrow> '''' | Some (v # _) \<Rightarrow> v)"

definition DetectPlatform :: "Header \<Rightarrow> SCMPlatform" where
  "DetectPlatform headers =
     (if Header_Get headers ''X-GitHub-Event'' \<noteq> '''' then PlatformGitHub
      else if Header_Get headers ''X-Event-Key'' \<noteq> '''' then PlatformBitbucket
      else PlatformUnknown)"

section \<open>Webhook gateway\<close>

definition HasPrefix :: "string \<Rightarrow> string \<Rightarrow> bool" where
  "HasPrefix s p = (take (length p) s = p)"

text \<open>
  \<open>verifyWebhookSignature\<close>. The keyed digest (\<open>hmac.New(sha256.New, key)\<close>, \<open>Write\<close>,
  \<open>Sum\<close>, \<open>hex.EncodeToString\<close>) belongs to Go's standard library and is a parameter:
  \<open>digest key message\<close> is the hexadecimal HMAC-SHA256. \<open>hmac.Equal\<close> is equality of
  byte sequences, computed in constant time.
\<close>

definition verifyWebhookSignature ::
  "(bytes \<Rightarrow> bytes \<Rightarrow> string) \<Rightarrow> bytes \<Rightarrow> string \<Rightarrow> string \<Rightarrow> bool" where
  "verifyWebhookSignature digest payload signature secret =
     (let signature' = (if HasPrefix signature ''sha256='' then drop 7 signature else signature);
          expected = digest secret payload
      in expected = signature')"

text \<open>
  One call of \<open>pubCh.PublishWithContext\<close>: the exchange, the routing key and the fields
  of the \<open>amqp.Publishing\<close> the source sets (\<open>amqp.Persistent\<close> is the delivery mode 2).
  On the default exchange, the empty name, the broker routes a message to the queue
  named by the routing key.
\<close>

record amqp_publish =
  pub_exchange :: string
  pub_key :: string
  pub_ContentType :: string
  pub_DeliveryMode :: "8 word"
  pub_Body :: bytes

definition publishing :: "string \<Rightarrow> bytes \<Rightarrow> amqp_publish" where
  "publishing queue body =
     \<lparr> pub_exchange = '''', pub_key = queue, pub_ContentType = ''application/json'',
       pub_DeliveryMode = 2, pub_Body = body \<rparr>"

text \<open>
  The client of the broker, as far as publishing goes: \<open>pubCh_Publish p\<close> is the outcome
  of \<open>pubCh.PublishWithContext\<close> on the call \<open>p\<close> (\<open>None\<close> is Go's \<open>nil\<close> error), and
  \<open>json_Marshal_raw\<close> and \<open>json_Marshal_event\<close> are \<open>json.Marshal\<close> at the two message
  types. The two publish functions return their error together with the calls they made
  on the publish channel, each with its outcome. The mutex around the call orders
  concurrent callers and does not change what one call does.
\<close>

record RabbitMQ =
  pubCh_Publish :: "amqp_publish \<Rightarrow> error option"
  json_Marshal_raw :: "RawWebhookMessage \<Rightarrow> error + bytes"
  json_Marshal_event :: "NormalizedEvent \<Rightarrow> error + bytes"

type_synonym broker_call = "amqp_publish \<times> error option"

definition PublishRawEvent ::
  "RabbitMQ \<Rightarrow> RawWebhookMessage \<Rightarrow> error option \<times> broker_call list" where
  "PublishRawEvent mq msg =
     (case json_Marshal_raw mq msg of
        Inl err \<Rightarrow> (Some (Wrapped ''rabbitmq: failed to marshal raw event'' err), [])
      | Inr body \<Rightarrow>
          (case pubCh_Publish mq (publishing rawEventsQueue body) of
             Some err \<Rightarrow>
               (Some (Wrapped ''rabbitmq: failed to publish raw event'' err),
                [(publishing rawEventsQueue body, Some err)])
           | None \<Rightarrow> (None, [(publishing rawEventsQueue body, None)])))"

definition PublishNormalizedEvent ::
  "RabbitMQ \<Rightarrow> NormalizedEvent \<Rightarrow> error option \<times> broker_call list" where
  "PublishNormalizedEvent mq event =
     (case json_Marshal_event mq event of
        Inl err \<Rightarrow> (Some (Wrapped ''rabbitmq: failed to marshal normalized event'' err), [])
      | Inr body \<Rightarrow>
          (case pubCh_Publish mq (publishing normalizedEventsQueue body) of
             Some err \<Rightarrow>
               (Some (Wrapped ''rabbitmq: failed to publish normalized event'' err),
                [(publishing normalizedEventsQueue body, Some err)])
           | None \<Rightarrow> (None, [(publishing normalizedEventsQueue body, None)])))"

text \<open>
  What one run of \<open>WebhookHandler\<close> does to the outside, in the order of the calls:
  \<open>w.WriteHeader\<close>, \<open>w.Write\<close>, and the call of \<open>mq.PublishRawEvent\<close> with the message
  handed over and what the call did: the error it returned and its calls on the publish
  channel.
\<close>

datatype gw_effect =
    WriteHeader go_int
  | Write bytes
  | PublishCall RawWebhookMessage "error option \<times> broker_call list"

text \<open>\<open>http.Error\<close> writes the status line and then the message followed by a newline.\<close>

definition http_Error :: "string \<Rightarrow> go_int \<Rightarrow> gw_effect list" where
  "http_Error msg code = [WriteHeader code, Write (msg @ [CHR 0x0A])]"

text \<open>
  The request as the handler reads it: the outcome of \<open>io.ReadAll(r.Body)\<close> and the
  headers. The process state it reads: the variable \<open>WEBHOOK_SECRET\<close> and the package
  variable \<open>mq\<close>, which is \<open>nil\<close> when the broker could not be reached at start-up.
\<close>

record Request =
  req_Body :: "error + bytes"
  req_Header :: Header

record gateway_env =
  WEBHOOK_SECRET :: string
  hmac_sha256_hex :: "bytes \<Rightarrow> bytes \<Rightarrow> string"
  mq :: "RabbitMQ option"

definition request_signature :: "Header \<Rightarrow> string" where
  "request_signature h =
     (let signature = Header_Get h ''X-Hub-Signature-256''
      in if signature = '''' then Header_Get h ''X-Hub-Signature'' else signature)"

definition request_eventType :: "Header \<Rightarrow> string" where
  "request_eventType h =
     (if DetectPlatform h = PlatformBitbucket then Header_Get h ''X-Event-Key''
      else Header_Get h ''X-GitHub-Event'')"

definition isPREvent :: "string \<Rightarrow> bool" where
  "isPREvent eventType = (eventType = ''pull_request'' \<or> HasPrefix eventType ''pullrequest:'')"

definition WebhookHandler :: "gateway_env \<Rightarrow> Request \<Rightarrow> gw_effect list" where
  "WebhookHandler env r =
     (case req_Body r of
        Inl err \<Rightarrow> http_Error ''cannot read body'' 500
      | Inr body \<Rightarrow>
          if WEBHOOK_SECRET env = '''' then http_Error ''webhook secret not configured'' 500
          else if request_signature (req_Header r) = '''' then http_Error ''signature missing'' 400
          else if \<not> verifyWebhookSignature (hmac_sha256_hex env) body
                     (request_signature (req_Header r)) (WEBHOOK_SECRET env)
          then http_Error ''invalid signature'' 401
          else
            [WriteHeader 200, Write ''received''] @
            (if \<not> isPREvent (request_eventType (req_Header r)) then []
             else
               (case mq env of
                  None \<Rightarrow> []
                | Some q \<Rightarrow>
                    (let msg = \<lparr> rw_Platform = DetectPlatform (req_Header r),
                                 rw_EventType = request_eventType (req_Header r),
                                 rw_Payload = body \<rparr>
                     in [PublishCall msg (PublishRawEvent q msg)]))))"

text \<open>
  The status line and the body of the response, the messages for which
  \<open>PublishRawEvent\<close> returned no error, and the messages it was called with.
\<close>

fun response_status :: "gw_effect list \<Rightarrow> go_int option" where
  "response_status [] = None"
| "response_status (WriteHeader c # es) = Some c"
| "response_status (e # es) = response_status es"

fun response_body :: "gw_effect list \<Rightarrow> bytes" where
  "response_body [] = []"
| "response_body (Write b # es) = b @ response_body es"
| "response_body (e # es) = response_body es"

fun published :: "gw_effect list \<Rightarrow> RawWebhookMessage list" where
  "published [] = []"
| "published (PublishCall m (None, calls) # es) = m # published es"
| "published (e # es) = published es"

text \<open>The calls on the publish channel that the broker accepted, in order.\<close>

definition accepted_calls :: "broker_call list \<Rightarrow> amqp_publish list" where
  "accepted_calls calls = map fst (filter (\<lambda>c. snd c = None) calls)"

fun accepted :: "gw_effect list \<Rightarrow> amqp_publish list" where
  "accepted [] = []"
| "accepted (PublishCall m res # es) = accepted_calls (snd res) @ accepted es"
| "accepted (e # es) = accepted es"

fun publish_calls :: "gw_effect list \<Rightarrow> RawWebhookMessage list" where
  "publish_calls [] = []"
| "publish_calls (PublishCall m r # es) = m # publish_calls es"
| "publish_calls (e # es) = publish_calls es"

section \<open>GitHub adapter (scm\_github.go and the files fetcher it reuses)\<close>

record PRFile =
  prf_Filename :: string
  prf_Status :: string
  prf_Additions :: go_int
  prf_Deletions :: go_int
  prf_Changes :: go_int
  prf_PreviousFilename :: string

record ghPullRequest =
  ghpr_Number :: go_int
  ghpr_Title :: string
  ghpr_Body :: string
  ghpr_State :: string
  ghpr_HTMLURL :: string
  ghpr_UserLogin :: string
  ghpr_HeadRef :: string
  ghpr_BaseRef :: string

record ghRepository =
  ghrepo_Name :: string
  ghrepo_FullName :: string
  ghrepo_HTMLURL :: string
  ghrepo_CloneURL :: string
  ghrepo_OwnerLogin :: string

record ghWebhookPayload =
  gh_Action :: string
  gh_Number :: go_int
  gh_PullRequest :: ghPullRequest
  gh_Repository :: ghRepository

text \<open>
  What the adapter gets from outside: \<open>gh_token owner repo\<close> is the outcome of
  \<open>g.token\<close> (JWT and installation token), \<open>gh_files_request tok owner repo n\<close> the
  outcome of the authenticated GET of the pull request's files, and the three decoders
  are \<open>json.Unmarshal\<close> at the three target types: \<open>gh_Unmarshal_message body\<close> is
  \<open>Some msg\<close> when the body decodes to an object with a \<open>message\<close> entry.
\<close>

record github_api =
  gh_token :: "string \<Rightarrow> string \<Rightarrow> error + string"
  gh_files_request :: "string \<Rightarrow> string \<Rightarrow> string \<Rightarrow> go_int \<Rightarrow> error + bytes"
  gh_Unmarshal_message :: "bytes \<Rightarrow> string option"
  gh_Unmarshal_files :: "bytes \<Rightarrow> error + PRFile list"
  gh_Unmarshal_webhook :: "bytes \<Rightarrow> error + ghWebhookPayload"

definition getPRChangedFiles ::
  "github_api \<Rightarrow> string \<Rightarrow> string \<Rightarrow> string \<Rightarrow> go_int \<Rightarrow> error + PRFile list" where
  "getPRChangedFiles api token owner repo prNumber =
     (case gh_files_request api token owner repo prNumber of
        Inl err \<Rightarrow> Inl (Wrapped ''failed to fetch PR files'' err)
      | Inr body \<Rightarrow>
          (case gh_Unmarshal_message api body of
             Some msg \<Rightarrow> Inl (Msg (''GitHub API error: '' @ msg))
           | None \<Rightarrow>
               (case gh_Unmarshal_files api body of
                  Inl err \<Rightarrow> Inl (Wrapped ''failed to parse PR files'' err)
                | Inr files \<Rightarrow> Inr files)))"

definition gh_file :: "PRFile \<Rightarrow> NormalizedFile" where
  "gh_file f = \<lparr> nf_Filename = prf_Filename f,
                 nf_Status = prf_Status f,
                 nf_Additions = prf_Additions f,
                 nf_Deletions = prf_Deletions f,
                 nf_Changes = prf_Changes f,
                 nf_PreviousFilename = prf_PreviousFilename f \<rparr>"

definition gh_GetPRFiles ::
  "github_api \<Rightarrow> string \<Rightarrow> string \<Rightarrow> go_int \<Rightarrow> error + NormalizedFile list" where
  "gh_GetPRFiles api owner repo prNumber =
     (case gh_token api owner repo of
        Inl err \<Rightarrow> Inl err
      | Inr tok \<Rightarrow>
          (case getPRChangedFiles api tok owner repo prNumber of
             Inl err \<Rightarrow> Inl (Wrapped ''GitHub adapter: GetPRFiles failed'' err)
           | Inr rawFiles \<Rightarrow> Inr (map gh_file rawFiles)))"

definition isFileEnrichableAction :: "string \<Rightarrow> bool" where
  "isFileEnrichableAction action =
     (if action = ''opened'' \<or> action = ''synchronize'' \<or> action = ''reopened'' then True
      else False)"

text \<open>
  \<open>NormalizeEvent\<close> returns its result together with the list of \<open>GetPRFiles\<close> calls it
  made (owner, repository, number), in order. \<open>now\<close> is the value of \<open>time.Now()\<close>.
  \<open>Files\<close> stays Go's \<open>nil\<close> slice, the empty list, unless the fetch succeeds.
\<close>

type_synonym files_call = "string \<times> string \<times> go_int"

definition gh_NormalizeEvent ::
  "github_api \<Rightarrow> nat \<Rightarrow> string \<Rightarrow> bytes \<Rightarrow> (error + NormalizedEvent) \<times> files_call list" where
  "gh_NormalizeEvent api now eventType payload =
     (case gh_Unmarshal_webhook api payload of
        Inl err \<Rightarrow> (Inl (Wrapped ''GitHub adapter: failed to parse webhook payload'' err), [])
      | Inr p \<Rightarrow>
          (let pr = gh_PullRequest p;
               repo = gh_Repository p;
               event = \<lparr> ev_Platform = PlatformGitHub,
                         ev_EventType = ''pull_request.'' @ gh_Action p,
                         ev_Action = gh_Action p,
                         ev_PR = \<lparr> pr_Number = ghpr_Number pr,
                                   pr_Title = ghpr_Title pr,
                                   pr_Description = ghpr_Body pr,
                                   pr_Author = ghpr_UserLogin pr,
                                   pr_SourceBranch = ghpr_HeadRef pr,
                                   pr_TargetBranch = ghpr_BaseRef pr,
                                   pr_State = ghpr_State pr,
                                   pr_URL = ghpr_HTMLURL pr \<rparr>,
                         ev_Repository = \<lparr> repo_Name = ghrepo_Name repo,
                                           repo_FullName = ghrepo_FullName repo,
                                           repo_Owner = ghrepo_OwnerLogin repo,
                                           repo_CloneURL = ghrepo_CloneURL repo,
                                           repo_HTMLURL = ghrepo_HTMLURL repo \<rparr>,
                         ev_Files = [],
                         ev_RawPayload = payload,
                         ev_ReceivedAt = now \<rparr>
           in if ghpr_Number pr \<noteq> 0 \<and> isFileEnrichableAction (gh_Action p)
              then
                (case gh_GetPRFiles api (ghrepo_OwnerLogin repo) (ghrepo_Name repo) (ghpr_Number pr) of
                   Inl err \<Rightarrow>
                     (Inr event, [(ghrepo_OwnerLogin repo, ghrepo_Name repo, ghpr_Number pr)])
                 | Inr files \<Rightarrow>
                     (Inr (event\<lparr> ev_Files := files \<rparr>),
                      [(ghrepo_OwnerLogin repo, ghrepo_Name repo, ghpr_Number pr)]))
              else (Inr event, [])))"

section \<open>Bitbucket adapter (scm\_interface.go)\<close>

text \<open>
  One entry of the diffstat response; \<open>New\<close> and \<open>Old\<close> are pointers to a struct with a
  \<open>Path\<close>, \<open>None\<close> when the pointer is \<open>nil\<close>.
\<close>

record bbDiffstatValue =
  dv_Status :: string
  dv_LinesAdded :: go_int
  dv_LinesRemoved :: go_int
  dv_New :: "string option"
  dv_Old :: "string option"

record bbPullRequest =
  bbpr_ID :: go_int
  bbpr_Title :: string
  bbpr_Description :: string
  bbpr_State :: string
  bbpr_AuthorNickname :: string
  bbpr_AuthorDisplayName :: string
  bbpr_SourceBranchName :: string
  bbpr_DestinationBranchName :: string
  bbpr_LinksHTMLHref :: string

record bbCloneLink =
  cl_Href :: string
  cl_Name :: string

record bbRepository =
  bbrepo_Name :: string
  bbrepo_FullName :: string
  bbrepo_OwnerNickname :: string
  bbrepo_OwnerDisplayName :: string
  bbrepo_LinksHTMLHref :: string
  bbrepo_LinksClone :: "bbCloneLink list"

record bbWebhookPayload =
  bb_PullRequest :: bbPullRequest
  bb_Repository :: bbRepository

text \<open>
  What the adapter gets from outside: \<open>bb_diffstat_request owner repo n\<close> is the outcome
  of \<open>b.request\<close> on the diffstat address, the decoders are \<open>json.Unmarshal\<close> at the two
  target types, and \<open>strings_ToLower\<close> is the library's Unicode-aware lower-casing, kept
  a parameter so that nothing below depends on how it treats any character.
\<close>

record bitbucket_api =
  bb_diffstat_request :: "string \<Rightarrow> string \<Rightarrow> go_int \<Rightarrow> error + bytes"
  bb_Unmarshal_diffstat :: "bytes \<Rightarrow> error + bbDiffstatValue list"
  bb_Unmarshal_webhook :: "bytes \<Rightarrow> error + bbWebhookPayload"
  strings_ToLower :: "string \<Rightarrow> string"

definition mapBitbucketStatus :: "(string \<Rightarrow> string) \<Rightarrow> string \<Rightarrow> string" where
  "mapBitbucketStatus toLower status =
     (let s = toLower status
      in if s = ''added'' then ''added''
         else if s = ''removed'' then ''removed''
         else if s = ''modified'' then ''modified''
         else if s = ''renamed'' then ''renamed''
         else ''modified'')"

definition bb_file :: "(string \<Rightarrow> string) \<Rightarrow> bbDiffstatValue \<Rightarrow> NormalizedFile" where
  "bb_file toLower v =
     (let f = \<lparr> nf_Filename = '''',
                 nf_Status = mapBitbucketStatus toLower (dv_Status v),
                 nf_Additions = dv_LinesAdded v,
                 nf_Deletions = dv_LinesRemoved v,
                 nf_Changes = dv_LinesAdded v + dv_LinesRemoved v,
                 nf_PreviousFilename = '''' \<rparr>;
          f = (case dv_New v of Some path \<Rightarrow> f\<lparr> nf_Filename := path \<rparr> | None \<Rightarrow> f);
          f = (case dv_Old v of
                 Some path \<Rightarrow>
                   if toLower (dv_Status v) = ''renamed'' then f\<lparr> nf_PreviousFilename := path \<rparr>
                   else f
               | None \<Rightarrow> f)
      in f)"

definition bb_GetPRFiles ::
  "bitbucket_api \<Rightarrow> string \<Rightarrow> string \<Rightarrow> go_int \<Rightarrow> error + NormalizedFile list" where
  "bb_GetPRFiles api owner repo prNumber =
     (case bb_diffstat_request api owner repo prNumber of
        Inl err \<Rightarrow> Inl (Wrapped ''Bitbucket adapter: GetPRFiles failed'' err)
      | Inr body \<Rightarrow>
          (case bb_Unmarshal_diffstat api body of
             Inl err \<Rightarrow> Inl (Wrapped ''Bitbucket adapter: failed to parse diffstat response'' err)
           | Inr vals \<Rightarrow> Inr (map (bb_file (strings_ToLower api)) vals)))"

definition mapBitbucketEventKey :: "string \<Rightarrow> string \<times> string" where
  "mapBitbucketEventKey key =
     (if key = ''pullrequest:created'' then (''pull_request.opened'', ''opened'')
      else if key = ''pullrequest:updated'' then (''pull_request.updated'', ''synchronize'')
      else if key = ''pullrequest:fulfilled'' then (''pull_request.closed'', ''closed'')
      else if key = ''pullrequest:rejected'' then (''pull_request.closed'', ''closed'')
      else (''pull_request.unknown'', ''unknown''))"

text \<open>\<open>strings.SplitN(s, "/", 2)\<close>: cut at the first separator, if there is one.\<close>

fun cut_first :: "char \<Rightarrow> string \<Rightarrow> (string \<times> string) option" where
  "cut_first sep [] = None"
| "cut_first sep (c # cs) =
     (if c = sep then Some ([], cs)
      else (case cut_first sep cs of None \<Rightarrow> None | Some (a, b) \<Rightarrow> Some (c # a, b)))"

definition SplitN_2 :: "string \<Rightarrow> string list" where
  "SplitN_2 s = (case cut_first CHR ''/'' s of None \<Rightarrow> [s] | Some (a, b) \<Rightarrow> [a, b])"

text \<open>The loop over the clone links: the first link named \<open>https\<close>, if any.\<close>

fun https_clone_url :: "bbCloneLink list \<Rightarrow> string" where
  "https_clone_url [] = ''''"
| "https_clone_url (link # links) =
     (if cl_Name link = ''https'' then cl_Href link else https_clone_url links)"

definition bb_owner_repo :: "bbRepository \<Rightarrow> string \<times> string" where
  "bb_owner_repo repo =
     (case SplitN_2 (bbrepo_FullName repo) of
        [a, b] \<Rightarrow> (a, b)
      | _ \<Rightarrow> ('''', bbrepo_Name repo))"

definition bb_NormalizeEvent ::
  "bitbucket_api \<Rightarrow> nat \<Rightarrow> string \<Rightarrow> bytes \<Rightarrow> (error + NormalizedEvent) \<times> files_call list" where
  "bb_NormalizeEvent api now eventType payload =
     (case bb_Unmarshal_webhook api payload of
        Inl err \<Rightarrow> (Inl (Wrapped ''Bitbucket adapter: failed to parse webhook payload'' err), [])
      | Inr p \<Rightarrow>
          (let normalizedType = fst (mapBitbucketEventKey eventType);
               action = snd (mapBitbucketEventKey eventType);
               pr = bb_PullRequest p;
               repo = bb_Repository p;
               owner = fst (bb_owner_repo repo);
               repoName = snd (bb_owner_repo repo);
               event = \<lparr> ev_Platform = PlatformBitbucket,
                         ev_EventType = normalizedType,
                         ev_Action = action,
                         ev_PR = \<lparr> pr_Number = bbpr_ID pr,
                                   pr_Title = bbpr_Title pr,
                                   pr_Description = bbpr_Description pr,
                                   pr_Author = bbpr_AuthorNickname pr,
                                   pr_SourceBranch = bbpr_SourceBranchName pr,
                                   pr_TargetBranch = bbpr_DestinationBranchName pr,
                                   pr_State = strings_ToLower api (bbpr_State pr),
                                   pr_URL = bbpr_LinksHTMLHref pr \<rparr>,
                         ev_Repository = \<lparr> repo_Name = repoName,
                                           repo_FullName = bbrepo_FullName repo,
                                           repo_Owner = owner,
                                           repo_CloneURL = https_clone_url (bbrepo_LinksClone repo),
                                           repo_HTMLURL = bbrepo_LinksHTMLHref repo \<rparr>,
                         ev_Files = [],
                         ev_RawPayload = payload,
                         ev_ReceivedAt = now \<rparr>
           in if bbpr_ID pr \<noteq> 0 \<and> (action = ''opened'' \<or> action = ''synchronize'')
              then
                (case bb_GetPRFiles api owner repoName (bbpr_ID pr) of
                   Inl err \<Rightarrow> (Inr event, [(owner, repoName, bbpr_ID pr)])
                 | Inr files \<Rightarrow> (Inr (event\<lparr> ev_Files := files \<rparr>), [(owner, repoName, bbpr_ID pr)]))
              else (Inr event, [])))"

section \<open>Queue consumers (ConsumeRawEvents, ConsumeNormalizedEvents)\<close>

text \<open>
  A delivery as the loops use it: its tag, which \<open>Ack\<close> and \<open>Nack\<close> send back to the
  broker, and its body.
\<close>

record Delivery =
  DeliveryTag :: "64 word"
  Body :: bytes

text \<open>
  What a consumption loop does, in order: \<open>d.Nack(multiple, requeue)\<close> and
  \<open>d.Ack(multiple)\<close> on the delivery with the given tag, the call of the handler on a
  decoded message, whatever the handler does while it runs, and the handler's return.
\<close>

datatype ('m, 'e) consume_event =
    Nack "64 word" bool bool
  | Ack "64 word" bool
  | HandlerCall 'm
  | HandlerEffect 'e
  | HandlerReturn 'm


fun ConsumeNormalizedEvents_loop ::
  "(bytes \<Rightarrow> error + NormalizedEvent) \<Rightarrow> (NormalizedEvent \<Rightarrow> 'w \<Rightarrow> 'w \<times> 'e list) \<Rightarrow>
   Delivery list \<Rightarrow> 'w \<times> (NormalizedEvent, 'e) consume_event list \<Rightarrow>
   'w \<times> (NormalizedEvent, 'e) consume_event list" where
  "ConsumeNormalizedEvents_loop unmarshal handler [] st = st"
| "ConsumeNormalizedEvents_loop unmarshal handler (d # ds) st =
     (case unmarshal (Body d) of
        Inl err \<Rightarrow>
          ConsumeNormalizedEvents_loop unmarshal handler ds
            (fst st, snd st @ [Nack (DeliveryTag d) False False])
      | Inr event \<Rightarrow>
          ConsumeNormalizedEvents_loop unmarshal handler ds
            (fst (handler event (fst st)),
             snd st @ [HandlerCall event] @ map HandlerEffect (snd (handler event (fst st))) @
               [HandlerReturn event] @ [Ack (DeliveryTag d) False]))"

text \<open>
  The connection as a consumer sees it: \<open>conn_Channel\<close> is the error of
  \<open>mq.conn.Channel()\<close>, if it fails, and \<open>ch_Consume queue\<close> either the error of
  \<open>ch.Consume\<close> or the deliveries the channel hands out until the broker closes it.
\<close>

record consumer_conn =
  conn_Channel :: "error option"
  ch_Consume :: "string \<Rightarrow> error + Delivery list"

text \<open>The verb \<open>%q\<close> of \<open>fmt\<close> on a queue name: the name between double quotes.\<close>

definition quoted :: "string \<Rightarrow> string" where
  "quoted s = [CHR 0x22] @ s @ [CHR 0x22]"


definition ConsumeNormalizedEvents ::
  "consumer_conn \<Rightarrow> (bytes \<Rightarrow> error + NormalizedEvent) \<Rightarrow>
   (NormalizedEvent \<Rightarrow> 'w \<Rightarrow> 'w \<times> 'e list) \<Rightarrow> 'w \<Rightarrow>
   error option \<times> 'w \<times> (NormalizedEvent, 'e) consume_event list" where
  "ConsumeNormalizedEvents conn unmarshal handler w =
     (case conn_Channel conn of
        Some err \<Rightarrow>
          (Some (Wrapped (''rabbitmq: failed to open consumer channel for '' @
             quoted normalizedEventsQueue) err), w, [])
      | None \<Rightarrow>
          (case ch_Consume conn normalizedEventsQueue of
             Inl err \<Rightarrow>
               (Some (Wrapped (''rabbitmq: failed to register consumer on '' @
                  quoted normalizedEventsQueue) err), w, [])
           | Inr deliveries \<Rightarrow>
               (None, ConsumeNormalizedEvents_loop unmarshal handler deliveries (w, []))))"

section \<open>Event bus delivery (DeliverEvent, StartEventBusConsumer)\<close>

text \<open>
  The sink as \<open>DeliverEvent\<close> sees it: \<open>sink_Marshal\<close> is \<open>json.Marshal\<close> at
  \<open>NormalizedEvent\<close>, and \<open>client_Post url body\<close> is the outcome of \<open>client.Post\<close>:
  a transport error, or the status code and body of the response.
\<close>

record event_sink =
  sink_Marshal :: "NormalizedEvent \<Rightarrow> error + bytes"
  client_Post :: "string \<Rightarrow> bytes \<Rightarrow> error + (go_int \<times> bytes)"

text \<open>
  The three errors \<open>DeliverEvent\<close> builds with \<open>fmt.Errorf\<close>, each with the data its
  message is formatted from: the wrapped error, the address, the status code and the
  response body.
\<close>

datatype delivery_error =
    MarshalFailed error
  | SinkUnreachable string error
  | SinkReturnedError go_int string bytes

definition DeliverEvent :: "event_sink \<Rightarrow> NormalizedEvent \<Rightarrow> string \<Rightarrow> delivery_error option" where
  "DeliverEvent sink event url =
     (if url = '''' then None
      else
        (case sink_Marshal sink event of
           Inl err \<Rightarrow> Some (MarshalFailed err)
         | Inr body \<Rightarrow>
             (case client_Post sink url body of
                Inl err \<Rightarrow> Some (SinkUnreachable url err)
              | Inr resp \<Rightarrow>
                  if 400 \<le> sint (fst resp) then Some (SinkReturnedError (fst resp) url (snd resp))
                  else None)))"

text \<open>
  The handler \<open>StartEventBusConsumer\<close> passes to \<open>ConsumeNormalizedEvents\<close>: it keeps no
  state, and what it does with a failed delivery is to log it, which is the one effect
  recorded. \<open>log.Fatalf\<close> on the error of the loop ends the process and is the caller's
  reading of the first component.
\<close>

definition event_bus_handler ::
  "event_sink \<Rightarrow> string \<Rightarrow> NormalizedEvent \<Rightarrow> unit \<Rightarrow> unit \<times> delivery_error list" where
  "event_bus_handler sink platformBEURL event w =
     (case DeliverEvent sink event platformBEURL of
        Some err \<Rightarrow> ((), [err])
      | None \<Rightarrow> ((), []))"

definition StartEventBusConsumer ::
  "consumer_conn \<Rightarrow> (bytes \<Rightarrow> error + NormalizedEvent) \<Rightarrow> event_sink \<Rightarrow> string \<Rightarrow>
   error option \<times> unit \<times> (NormalizedEvent, delivery_error) consume_event list" where
  "StartEventBusConsumer conn unmarshal sink platformBEURL =
     ConsumeNormalizedEvents conn unmarshal (event_bus_handler sink platformBEURL) ()"

section \<open>Worked inputs\<close>

text \<open>
  Provider responses used by the worked examples below. The GitHub file is a copy
  (\<open>copied\<close> is one of the statuses of GitHub's files API), reported with the path it
  was copied from. The Bitbucket entries are a rename without an \<open>old\<close> part and a
  rename with one. Lower-casing is the identity in the examples, which is right on the
  lower-case ASCII strings they use.
\<close>

definition example_copied :: PRFile where
  "example_copied = \<lparr> prf_Filename = ''b.go'', prf_Status = ''copied'', prf_Additions = 0,
                       prf_Deletions = 0, prf_Changes = 0, prf_PreviousFilename = ''a.go'' \<rparr>"

definition example_gh_payload :: "string \<Rightarrow> go_int \<Rightarrow> ghWebhookPayload" where
  "example_gh_payload action n =
     \<lparr> gh_Action = action, gh_Number = n,
       gh_PullRequest = \<lparr> ghpr_Number = n, ghpr_Title = ''Fix'', ghpr_Body = '''',
                          ghpr_State = ''open'', ghpr_HTMLURL = '''', ghpr_UserLogin = ''ann'',
                          ghpr_HeadRef = ''fix'', ghpr_BaseRef = ''main'' \<rparr>,
       gh_Repository = \<lparr> ghrepo_Name = ''hello'', ghrepo_FullName = ''octo/hello'',
                         ghrepo_HTMLURL = '''', ghrepo_CloneURL = '''',
                         ghrepo_OwnerLogin = ''octo'' \<rparr> \<rparr>"

definition example_github :: "string \<Rightarrow> go_int \<Rightarrow> github_api" where
  "example_github action n =
     \<lparr> gh_token = (\<lambda>owner repo. Inr ''tok''),
       gh_files_request = (\<lambda>tok owner repo k. Inr ''[]''),
       gh_Unmarshal_message = (\<lambda>body. None),
       gh_Unmarshal_files = (\<lambda>body. Inr [example_copied]),
       gh_Unmarshal_webhook = (\<lambda>body. Inr (example_gh_payload action n)) \<rparr>"


definition example_rename_without_old :: bbDiffstatValue where
  "example_rename_without_old =
     \<lparr> dv_Status = ''renamed'', dv_LinesAdded = 3, dv_LinesRemoved = 1,
       dv_New = Some ''new.go'', dv_Old = None \<rparr>"

definition example_rename :: bbDiffstatValue where
  "example_rename =
     \<lparr> dv_Status = ''renamed'', dv_LinesAdded = 0, dv_LinesRemoved = 0,
       dv_New = Some ''moved.go'', dv_Old = Some ''old.go'' \<rparr>"

definition example_bb_payload :: "go_int \<Rightarrow> bbWebhookPayload" where
  "example_bb_payload n =
     \<lparr> bb_PullRequest = \<lparr> bbpr_ID = n, bbpr_Title = ''Fix'', bbpr_Description = '''',
                          bbpr_State = ''open'', bbpr_AuthorNickname = ''ann'',
                          bbpr_AuthorDisplayName = ''Ann'', bbpr_SourceBranchName = ''fix'',
                          bbpr_DestinationBranchName = ''main'', bbpr_LinksHTMLHref = '''' \<rparr>,
       bb_Repository = \<lparr> bbrepo_Name = ''hello'', bbrepo_FullName = ''team/hello'',
                         bbrepo_OwnerNickname = ''team'', bbrepo_OwnerDisplayName = ''Team'',
                         bbrepo_LinksHTMLHref = '''', bbrepo_LinksClone = [] \<rparr> \<rparr>"

definition example_bitbucket :: "go_int \<Rightarrow> bitbucket_api" where
  "example_bitbucket n =
     \<lparr> bb_diffstat_request = (\<lambda>owner repo k. Inr ''{}''),
       bb_Unmarshal_diffstat = (\<lambda>body. Inr [example_rename_without_old, example_rename]),
       bb_Unmarshal_webhook = (\<lambda>body. Inr (example_bb_payload n)),
       strings_ToLower = (\<lambda>s. s) \<rparr>"

definition example_bitbucket_down :: "go_int \<Rightarrow> bitbucket_api" where
  "example_bitbucket_down n =
     (example_bitbucket n)\<lparr> bb_diffstat_request := (\<lambda>owner repo k. Inl (External ''timeout'')) \<rparr>"


definition example_event :: "bytes \<Rightarrow> NormalizedEvent" where
  "example_event body =
     \<lparr> ev_Platform = PlatformGitHub, ev_EventType = ''pull_request.closed'', ev_Action = ''closed'',
       ev_PR = \<lparr> pr_Number = 42, pr_Title = ''Fix'', pr_Description = '''', pr_Author = ''ann'',
                 pr_SourceBranch = ''fix'', pr_TargetBranch = ''main'', pr_State = ''closed'',
                 pr_URL = '''' \<rparr>,
       ev_Repository = \<lparr> repo_Name = ''hello'', repo_FullName = ''octo/hello'', repo_Owner = ''octo'',
                         repo_CloneURL = '''', repo_HTMLURL = '''' \<rparr>,
       ev_Files = [], ev_RawPayload = body, ev_ReceivedAt = 0 \<rparr>"

definition example_unmarshal_event :: "bytes \<Rightarrow> error + NormalizedEvent" where
  "example_unmarshal_event body =
     (if body = ''bad'' then Inl (External ''invalid character'') else Inr (example_event body))"

definition example_deliveries :: "Delivery list" where
  "example_deliveries =
     [\<lparr> DeliveryTag = 1, Body = ''a'' \<rparr>, \<lparr> DeliveryTag = 2, Body = ''bad'' \<rparr>,
      \<lparr> DeliveryTag = 3, Body = ''c'' \<rparr>]"


definition example_conn :: consumer_conn where
  "example_conn = \<lparr> conn_Channel = None, ch_Consume = (\<lambda>queue. Inr example_deliveries) \<rparr>"

definition example_sink :: "go_int \<Rightarrow> event_sink" where
  "example_sink status =
     \<lparr> sink_Marshal = (\<lambda>event. Inr (ev_RawPayload event)),
       client_Post = (\<lambda>url body. Inr (status, ''''))  \<rparr>"


text \<open>
  A digest function for the worked examples: it agrees with HMAC-SHA256 at the one point
  the examples use (key \<open>s3cret\<close>, message \<open>{}\<close>) and is a fixed string elsewhere.
\<close>

definition example_digest :: "bytes \<Rightarrow> bytes \<Rightarrow> string" where
  "example_digest key message =
     (if key = ''s3cret'' \<and> message = ''{}''
      then ''adbde1ce40c89c14215687d5d762a47df6dfaefcfad61e2e86718ffc8498571b''
      else ''0000000000000000000000000000000000000000000000000000000000000000'')"

definition example_mq :: RabbitMQ where
  "example_mq = \<lparr> pubCh_Publish = (\<lambda>p. None),
                   json_Marshal_raw = (\<lambda>m. Inr (rw_Payload m)),
                   json_Marshal_event = (\<lambda>e. Inr (ev_RawPayload e)) \<rparr>"

definition example_gateway :: gateway_env where
  "example_gateway = \<lparr> WEBHOOK_SECRET = ''s3cret'', hmac_sha256_hex = example_digest,
                        mq = Some example_mq \<rparr>"

definition example_signature :: string where
  "example_signature =
     ''sha256=adbde1ce40c89c14215687d5d762a47df6dfaefcfad61e2e86718ffc8498571b''"

definition github_request :: "string \<Rightarrow> string \<Rightarrow> Request" where
  "github_request event signature =
     \<lparr> req_Body = Inr ''{}'',
       req_Header = [''X-GitHub-Event'' \<mapsto> [event], ''X-Hub-Signature-256'' \<mapsto> [signature]] \<rparr>"

section \<open>Properties of the platform router\<close>

lemma platform_constants_distinct:
  "PlatformGitHub \<noteq> PlatformBitbucket" "PlatformGitHub \<noteq> PlatformUnknown"
  "PlatformBitbucket \<noteq> PlatformUnknown"
  by (simp_all add: PlatformGitHub_def PlatformBitbucket_def PlatformUnknown_def)

lemma Header_Get_nonempty:
  "(Header_Get h key \<noteq> '''') = (\<exists>v vs. h key = Some (v # vs) \<and> v \<noteq> '''')"
  by (auto simp add: Header_Get_def split: option.splits list.splits)

text \<open>
  Claim C10, as amended. \<open>DetectPlatform\<close> returns a platform for every header map, and
  the GitHub signal wins, where a header counts as present when \<open>Header.Get\<close> returns a
  non-empty value for it, that is, when the first value stored under it is not the empty
  string: it returns GitHub exactly when \<open>X-GitHub-Event\<close> is present, whatever
  \<open>X-Event-Key\<close> holds, Bitbucket exactly when \<open>X-Event-Key\<close> is present and
  \<open>X-GitHub-Event\<close> is not, and the Unknown sentinel exactly when neither is present.
\<close>

theorem DetectPlatform_precedence:
  "(DetectPlatform h = PlatformGitHub) = (Header_Get h ''X-GitHub-Event'' \<noteq> '''')
   \<and> (DetectPlatform h = PlatformBitbucket) =
       (Header_Get h ''X-Event-Key'' \<noteq> '''' \<and> Header_Get h ''X-GitHub-Event'' = '''')
   \<and> (DetectPlatform h = PlatformUnknown) =
       (Header_Get h ''X-GitHub-Event'' = '''' \<and> Header_Get h ''X-Event-Key'' = '''')
   \<and> (Header_Get h key \<noteq> '''') = (\<exists>v vs. h key = Some (v # vs) \<and> v \<noteq> '''')"
  using platform_constants_distinct Header_Get_nonempty [of h key]
  by (auto simp add: DetectPlatform_def)

text \<open>The theorem at a request that carries both headers with a value: GitHub wins.\<close>

theorem DetectPlatform_precedence_witness:
  "DetectPlatform [''X-GitHub-Event'' \<mapsto> [''pull_request''],
                   ''X-Event-Key'' \<mapsto> [''pullrequest:created'']] = PlatformGitHub"
  using DetectPlatform_precedence
    [of "[''X-GitHub-Event'' \<mapsto> [''pull_request''], ''X-Event-Key'' \<mapsto> [''pullrequest:created'']]"]
  by (simp add: Header_Get_def)

text \<open>
  Claim C10 as stated fails: a request that contains both headers, \<open>X-GitHub-Event\<close>
  with an empty value, is classified as Bitbucket.
\<close>

theorem empty_github_header_is_bitbucket:
  "''X-GitHub-Event'' \<in> dom [''X-GitHub-Event'' \<mapsto> [''''],
                               ''X-Event-Key'' \<mapsto> [''pullrequest:created'']]
   \<and> ''X-Event-Key'' \<in> dom [''X-GitHub-Event'' \<mapsto> [''''],
                              ''X-Event-Key'' \<mapsto> [''pullrequest:created'']]
   \<and> DetectPlatform [''X-GitHub-Event'' \<mapsto> [''''],
                       ''X-Event-Key'' \<mapsto> [''pullrequest:created'']] = PlatformBitbucket"
  by (simp add: DetectPlatform_def Header_Get_def PlatformBitbucket_def PlatformGitHub_def)

section \<open>Properties of the webhook gateway\<close>

lemma example_request_signature:
  "request_signature (req_Header (github_request ev sg)) = sg"
  by (simp add: request_signature_def github_request_def Header_Get_def)

lemma example_request_eventType:
  "ev \<noteq> '''' \<Longrightarrow> request_eventType (req_Header (github_request ev sg)) = ev"
  "ev \<noteq> '''' \<Longrightarrow> DetectPlatform (req_Header (github_request ev sg)) = PlatformGitHub"
  by (simp_all add: request_eventType_def github_request_def Header_Get_def DetectPlatform_def
      PlatformGitHub_def PlatformBitbucket_def)

lemma example_request_body:
  "req_Body (github_request ev sg) = Inr ''{}''"
  by (simp add: github_request_def)

lemma example_signature_verifies:
  "verifyWebhookSignature example_digest ''{}'' example_signature ''s3cret''"
  "example_signature \<noteq> ''''"
  by (simp_all add: verifyWebhookSignature_def example_digest_def example_signature_def HasPrefix_def)

lemma example_run:
  "WebhookHandler example_gateway (github_request ''pull_request'' example_signature) =
     [WriteHeader 200, Write ''received''] @
     PublishCall \<lparr> rw_Platform = PlatformGitHub, rw_EventType = ''pull_request'',
                   rw_Payload = ''{}'' \<rparr>
       (None, [(publishing rawEventsQueue ''{}'', None)]) # []"
  using example_signature_verifies
  by (simp add: WebhookHandler_def example_request_signature example_request_eventType
      example_request_body example_gateway_def isPREvent_def PublishRawEvent_def example_mq_def)

lemma example_push_run:
  "WebhookHandler example_gateway (github_request ''push'' example_signature) =
     [WriteHeader 200, Write ''received'']"
  using example_signature_verifies
  by (simp add: WebhookHandler_def example_request_signature example_request_eventType
      example_request_body example_gateway_def isPREvent_def HasPrefix_def)

text \<open>
  Claim C1, as amended. For every request whose body was read, with a signing secret
  configured and a signature supplied that verifies against the body, the gateway
  responds 200 with the body \<open>received\<close>. When the event type is \<open>pull_request\<close> or
  starts with \<open>pullrequest:\<close>, the queue client is initialised, the message
  \<open>RawWebhookMessage{platform, eventType, payload}\<close> with the request body as its
  \<open>Payload\<close> serializes and the broker accepts the call, exactly one message is
  published: that serialization, on the default exchange with the raw events queue
  \<open>raw_webhook_events\<close> as routing key, as persistent JSON. In every other case the
  broker accepts nothing, on any queue.
\<close>

theorem valid_signature_acknowledged:
  assumes "req_Body r = Inr body"
    and "WEBHOOK_SECRET env \<noteq> ''''"
    and "request_signature (req_Header r) \<noteq> ''''"
    and "verifyWebhookSignature (hmac_sha256_hex env) body
           (request_signature (req_Header r)) (WEBHOOK_SECRET env)"
  shows "response_status (WebhookHandler env r) = Some 200
         \<and> response_body (WebhookHandler env r) = ''received''
         \<and> accepted (WebhookHandler env r) =
             (case mq env of
                None \<Rightarrow> []
              | Some q \<Rightarrow>
                  if isPREvent (request_eventType (req_Header r))
                  then
                    (case json_Marshal_raw q
                            \<lparr> rw_Platform = DetectPlatform (req_Header r),
                              rw_EventType = request_eventType (req_Header r),
                              rw_Payload = body \<rparr> of
                       Inl err \<Rightarrow> []
                     | Inr json \<Rightarrow>
                         if pubCh_Publish q
                              \<lparr> pub_exchange = '''', pub_key = ''raw_webhook_events'',
                                pub_ContentType = ''application/json'', pub_DeliveryMode = 2,
                                pub_Body = json \<rparr> = None
                         then [\<lparr> pub_exchange = '''', pub_key = ''raw_webhook_events'',
                                 pub_ContentType = ''application/json'', pub_DeliveryMode = 2,
                                 pub_Body = json \<rparr>]
                         else [])
                  else [])
         \<and> published (WebhookHandler env r) =
             (case mq env of
                None \<Rightarrow> []
              | Some q \<Rightarrow>
                  (let msg = \<lparr> rw_Platform = DetectPlatform (req_Header r),
                               rw_EventType = request_eventType (req_Header r),
                               rw_Payload = body \<rparr>
                   in if isPREvent (request_eventType (req_Header r))
                         \<and> fst (PublishRawEvent q msg) = None
                      then [msg] else []))"
  using assms
  by (auto simp add: WebhookHandler_def Let_def PublishRawEvent_def publishing_def
      rawEventsQueue_def accepted_calls_def split: option.splits sum.splits)

text \<open>
  The theorem at a signed \<open>pull_request\<close> event with a working broker, whose serializer
  in this example hands back the payload: 200, and the one call the broker accepts goes
  to \<open>raw_webhook_events\<close> with the request body \<open>{}\<close>.
\<close>

theorem valid_signature_acknowledged_witness:
  "response_status (WebhookHandler example_gateway
      (github_request ''pull_request'' example_signature)) = Some 200
   \<and> response_body (WebhookHandler example_gateway
      (github_request ''pull_request'' example_signature)) = ''received''
   \<and> accepted (WebhookHandler example_gateway
      (github_request ''pull_request'' example_signature)) =
       [\<lparr> pub_exchange = '''', pub_key = ''raw_webhook_events'',
          pub_ContentType = ''application/json'', pub_DeliveryMode = 2, pub_Body = ''{}'' \<rparr>]
   \<and> published (WebhookHandler example_gateway
      (github_request ''pull_request'' example_signature)) =
       [\<lparr> rw_Platform = PlatformGitHub, rw_EventType = ''pull_request'', rw_Payload = ''{}'' \<rparr>]"
proof -
  have body: "req_Body (github_request ''pull_request'' example_signature) = Inr ''{}''"
    by (rule example_request_body)
  have secret: "WEBHOOK_SECRET example_gateway \<noteq> ''''"
    by (simp add: example_gateway_def)
  have sig: "request_signature (req_Header (github_request ''pull_request'' example_signature)) \<noteq> ''''"
    by (simp add: example_request_signature example_signature_verifies)
  have good: "verifyWebhookSignature (hmac_sha256_hex example_gateway) ''{}''
               (request_signature (req_Header (github_request ''pull_request'' example_signature)))
               (WEBHOOK_SECRET example_gateway)"
    by (simp add: example_request_signature example_gateway_def example_signature_verifies)
  from valid_signature_acknowledged [OF body secret sig good] show ?thesis
    by (simp add: example_request_eventType example_gateway_def isPREvent_def PublishRawEvent_def
        example_mq_def)
qed

text \<open>
  Claim C1 as stated fails: a \<open>push\<close> event with a valid signature is answered 200,
  \<open>PublishRawEvent\<close> is not called and the broker receives nothing.
\<close>

theorem valid_signature_not_always_published:
  "verifyWebhookSignature example_digest ''{}'' example_signature ''s3cret''
   \<and> response_status (WebhookHandler example_gateway (github_request ''push'' example_signature)) =
       Some 200
   \<and> published (WebhookHandler example_gateway (github_request ''push'' example_signature)) = []
   \<and> accepted (WebhookHandler example_gateway (github_request ''push'' example_signature)) = []"
  using example_signature_verifies by (simp add: example_push_run)

text \<open>
  Claim C2. For every request (body read, secret configured, signature supplied) whose
  signature does not match the HMAC-SHA256 of the body under the secret, the gateway
  responds 401, and \<open>PublishRawEvent\<close> is never called.
\<close>

theorem invalid_signature_rejected:
  assumes "req_Body r = Inr body"
    and "WEBHOOK_SECRET env \<noteq> ''''"
    and "request_signature (req_Header r) \<noteq> ''''"
    and "\<not> verifyWebhookSignature (hmac_sha256_hex env) body
           (request_signature (req_Header r)) (WEBHOOK_SECRET env)"
  shows "WebhookHandler env r = [WriteHeader 401, Write (''invalid signature'' @ [CHR 0x0A])]
         \<and> response_status (WebhookHandler env r) = Some 401
         \<and> publish_calls (WebhookHandler env r) = []"
  using assms by (simp add: WebhookHandler_def http_Error_def)

text \<open>The theorem at a \<open>pull_request\<close> event signed with a wrong digest.\<close>

theorem invalid_signature_rejected_witness:
  "response_status (WebhookHandler example_gateway
      (github_request ''pull_request'' ''sha256=00ff'')) = Some 401
   \<and> publish_calls (WebhookHandler example_gateway
      (github_request ''pull_request'' ''sha256=00ff'')) = []"
proof -
  have body: "req_Body (github_request ''pull_request'' ''sha256=00ff'') = Inr ''{}''"
    by (rule example_request_body)
  have secret: "WEBHOOK_SECRET example_gateway \<noteq> ''''"
    by (simp add: example_gateway_def)
  have sig: "request_signature (req_Header (github_request ''pull_request'' ''sha256=00ff'')) \<noteq> ''''"
    by (simp add: example_request_signature)
  have bad: "\<not> verifyWebhookSignature (hmac_sha256_hex example_gateway) ''{}''
               (request_signature (req_Header (github_request ''pull_request'' ''sha256=00ff'')))
               (WEBHOOK_SECRET example_gateway)"
    by (simp add: example_request_signature example_gateway_def verifyWebhookSignature_def
        example_digest_def HasPrefix_def)
  from invalid_signature_rejected [OF body secret sig bad] show ?thesis by blast
qed

text \<open>
  Claim C4. In every run of \<open>WebhookHandler\<close>, whatever precedes a call of
  \<open>PublishRawEvent\<close> is exactly the acknowledgment, \<open>WriteHeader(200)\<close> followed by
  \<open>Write("received")\<close>, and nothing follows the call: the response is written strictly
  before the only queue interaction. (The order is that of the handler's calls; when the
  HTTP server flushes the written response to the network is outside the handler.)
\<close>

theorem acknowledgment_precedes_publish:
  assumes "WebhookHandler env r = pre @ PublishCall m res # post"
  shows "pre = [WriteHeader 200, Write ''received''] \<and> post = []"
  using assms
  by (auto simp add: WebhookHandler_def http_Error_def Let_def append_eq_Cons_conv Cons_eq_append_conv
      split: sum.splits if_splits option.splits)

text \<open>The theorem at the signed \<open>pull_request\<close> event, whose run does publish.\<close>

theorem acknowledgment_precedes_publish_witness:
  "WebhookHandler example_gateway (github_request ''pull_request'' example_signature) =
     [WriteHeader 200, Write ''received''] @
     PublishCall \<lparr> rw_Platform = PlatformGitHub, rw_EventType = ''pull_request'',
                   rw_Payload = ''{}'' \<rparr>
       (None, [(publishing rawEventsQueue ''{}'', None)]) # []
   \<and> [WriteHeader 200, Write ''received''] = [WriteHeader 200, Write ''received'']
   \<and> ([] :: gw_effect list) = []"
  using acknowledgment_precedes_publish [OF example_run] example_run by simp

section \<open>Properties of the adapters' file lists\<close>

lemma gh_GetPRFiles_Inr:
  "gh_GetPRFiles api owner repo n = Inr files \<Longrightarrow>
   \<exists>tok raw. gh_token api owner repo = Inr tok
     \<and> getPRChangedFiles api tok owner repo n = Inr raw \<and> files = map gh_file raw"
  by (auto simp add: gh_GetPRFiles_def split: sum.splits)

lemma bb_GetPRFiles_Inr:
  "bb_GetPRFiles api owner repo n = Inr files \<Longrightarrow>
   \<exists>body vals. bb_diffstat_request api owner repo n = Inr body
     \<and> bb_Unmarshal_diffstat api body = Inr vals
     \<and> files = map (bb_file (strings_ToLower api)) vals"
  by (auto simp add: bb_GetPRFiles_def split: sum.splits)

lemma mapBitbucketStatus_range:
  "mapBitbucketStatus toLower s \<in> {''added'', ''modified'', ''removed'', ''renamed''}"
  by (simp add: mapBitbucketStatus_def Let_def)

lemma mapBitbucketStatus_default:
  "toLower s \<notin> {''added'', ''modified'', ''removed'', ''renamed''} \<Longrightarrow>
   mapBitbucketStatus toLower s = ''modified''"
  by (simp add: mapBitbucketStatus_def Let_def)

lemma mapBitbucketStatus_renamed:
  "(mapBitbucketStatus toLower s = ''renamed'') = (toLower s = ''renamed'')"
  by (simp add: mapBitbucketStatus_def Let_def)

lemma bb_file_fields:
  "nf_Status (bb_file toLower v) = mapBitbucketStatus toLower (dv_Status v)"
  "nf_Additions (bb_file toLower v) = dv_LinesAdded v"
  "nf_Deletions (bb_file toLower v) = dv_LinesRemoved v"
  "nf_Changes (bb_file toLower v) = dv_LinesAdded v + dv_LinesRemoved v"
  "nf_PreviousFilename (bb_file toLower v) =
     (case dv_Old v of
        Some path \<Rightarrow> if toLower (dv_Status v) = ''renamed'' then path else ''''
      | None \<Rightarrow> '''')"
  by (simp_all add: bb_file_def Let_def split: option.splits)

lemma example_github_files:
  "gh_GetPRFiles (example_github a n) owner repo k = Inr [gh_file example_copied]"
  by (simp add: gh_GetPRFiles_def getPRChangedFiles_def example_github_def)

lemma example_bitbucket_files:
  "bb_GetPRFiles (example_bitbucket n) owner repo k =
     Inr [bb_file (\<lambda>s. s) example_rename_without_old, bb_file (\<lambda>s. s) example_rename]"
  by (simp add: bb_GetPRFiles_def example_bitbucket_def)

lemma example_bitbucket_webhook:
  "bb_Unmarshal_webhook (example_bitbucket n) body = Inr (example_bb_payload n)"
  "bb_Unmarshal_webhook (example_bitbucket_down n) body = Inr (example_bb_payload n)"
  by (simp_all add: example_bitbucket_def example_bitbucket_down_def)


lemma bitbucket_file_status_and_changes:
  assumes "bb_GetPRFiles api owner repo n = Inr files"
  shows "\<forall>f \<in> set files.
           nf_Status f \<in> {''added'', ''modified'', ''removed'', ''renamed''}
           \<and> nf_Changes f = nf_Additions f + nf_Deletions f"
proof -
  from assms obtain vals where "files = map (bb_file (strings_ToLower api)) vals"
    using bb_GetPRFiles_Inr by blast
  then show ?thesis
    using mapBitbucketStatus_range by (auto simp add: bb_file_fields)
qed

lemma github_files_are_copies:
  assumes "gh_GetPRFiles api owner repo n = Inr files"
  shows "\<exists>tok raw. gh_token api owner repo = Inr tok
           \<and> getPRChangedFiles api tok owner repo n = Inr raw
           \<and> map nf_Status files = map prf_Status raw
           \<and> map nf_Changes files = map prf_Changes raw
           \<and> map nf_PreviousFilename files = map prf_PreviousFilename raw"
proof -
  from assms obtain tok raw where "gh_token api owner repo = Inr tok"
    and "getPRChangedFiles api tok owner repo n = Inr raw" and "files = map gh_file raw"
    using gh_GetPRFiles_Inr by blast
  then show ?thesis by (auto simp add: gh_file_def)
qed

text \<open>
  Claim C6 at a file that GitHub reports with the status \<open>copied\<close>: the GitHub adapter's
  \<open>GetPRFiles\<close> hands the provider's status on, so the \<open>NormalizedFile\<close> it produces has
  \<open>Status\<close> \<open>copied\<close>. That is none of the four normalized values, and it is not the
  \<open>modified\<close> that the claim, and \<open>mapBitbucketStatus\<close> on the same status, give for a
  status outside the four.
\<close>

theorem github_status_not_normalized:
  "gh_GetPRFiles (example_github ''opened'' 42) ''octo'' ''hello'' 42 = Inr [gh_file example_copied]
   \<and> nf_Status (gh_file example_copied) = ''copied''
   \<and> nf_Status (gh_file example_copied) \<notin> {''added'', ''modified'', ''removed'', ''renamed''}
   \<and> mapBitbucketStatus (\<lambda>s. s) ''copied'' = ''modified''"
  by (simp add: example_github_files gh_file_def example_copied_def mapBitbucketStatus_def)

text \<open>
  Claim C8, as amended. In every \<open>NormalizedFile\<close> the Bitbucket adapter's
  \<open>GetPRFiles\<close> produces, \<open>PreviousFilename\<close> is non-empty exactly when \<open>Status\<close> is
  \<open>renamed\<close> and the provider's entry for the file has an old part with a non-empty
  path; in particular a non-empty \<open>PreviousFilename\<close> implies \<open>Status\<close> \<open>renamed\<close>.
\<close>

theorem previous_filename_and_status:
  assumes "bb_GetPRFiles api owner repo n = Inr files"
  shows "(\<forall>f \<in> set files. nf_PreviousFilename f \<noteq> '''' \<longrightarrow> nf_Status f = ''renamed'')
   \<and> (\<exists>body vals.
         bb_diffstat_request api owner repo n = Inr body
         \<and> bb_Unmarshal_diffstat api body = Inr vals
         \<and> length files = length vals
         \<and> (\<forall>i < length vals.
               (nf_PreviousFilename (files ! i) \<noteq> '''') =
               (nf_Status (files ! i) = ''renamed''
                \<and> (\<exists>path. dv_Old (vals ! i) = Some path \<and> path \<noteq> ''''))))"
proof -
  from assms obtain body vals where req: "bb_diffstat_request api owner repo n = Inr body"
    and dec: "bb_Unmarshal_diffstat api body = Inr vals"
    and files: "files = map (bb_file (strings_ToLower api)) vals"
    using bb_GetPRFiles_Inr by blast
  have one: "(nf_PreviousFilename (bb_file t v) \<noteq> '''') =
      (nf_Status (bb_file t v) = ''renamed'' \<and> (\<exists>path. dv_Old v = Some path \<and> path \<noteq> ''''))"
    for t v
    by (simp add: bb_file_fields mapBitbucketStatus_renamed split: option.splits)
  have "\<forall>f \<in> set files. nf_PreviousFilename f \<noteq> '''' \<longrightarrow> nf_Status f = ''renamed''"
    using files one by auto
  moreover have "\<forall>i < length vals.
               (nf_PreviousFilename (files ! i) \<noteq> '''') =
               (nf_Status (files ! i) = ''renamed''
                \<and> (\<exists>path. dv_Old (vals ! i) = Some path \<and> path \<noteq> ''''))"
    using files one by simp
  ultimately show ?thesis using req dec files by simp
qed

text \<open>
  The theorem at the worked Bitbucket response: the rename with an old part keeps its
  old path, the rename without one has none.
\<close>

theorem previous_filename_and_status_witness:
  "bb_GetPRFiles (example_bitbucket 7) ''team'' ''hello'' 7 =
     Inr [bb_file (\<lambda>s. s) example_rename_without_old, bb_file (\<lambda>s. s) example_rename]
   \<and> nf_PreviousFilename (bb_file (\<lambda>s. s) example_rename) = ''old.go''
   \<and> nf_Status (bb_file (\<lambda>s. s) example_rename) = ''renamed''"
proof -
  have files: "bb_GetPRFiles (example_bitbucket 7) ''team'' ''hello'' 7 =
     Inr [bb_file (\<lambda>s. s) example_rename_without_old, bb_file (\<lambda>s. s) example_rename]"
    by (rule example_bitbucket_files)
  have prev: "nf_PreviousFilename (bb_file (\<lambda>s. s) example_rename) = ''old.go''"
    by (simp add: bb_file_fields example_rename_def)
  from previous_filename_and_status [OF files] prev files show ?thesis by simp
qed

text \<open>
  Claim C8 as stated fails: a Bitbucket rename whose entry has no old part gives
  \<open>Status\<close> \<open>renamed\<close> with an empty \<open>PreviousFilename\<close>.
\<close>

theorem renamed_without_previous_filename:
  "bb_GetPRFiles (example_bitbucket 7) ''team'' ''hello'' 7 =
     Inr [bb_file (\<lambda>s. s) example_rename_without_old, bb_file (\<lambda>s. s) example_rename]
   \<and> nf_Status (bb_file (\<lambda>s. s) example_rename_without_old) = ''renamed''
   \<and> nf_PreviousFilename (bb_file (\<lambda>s. s) example_rename_without_old) = ''''"
  by (simp add: example_bitbucket_files bb_file_fields mapBitbucketStatus_def
      example_rename_without_old_def)

section \<open>Properties of event normalization\<close>

lemma gh_event_type_convention:
  "fst (gh_NormalizeEvent api now et payload) = Inr ev \<Longrightarrow>
   ev_EventType ev = ''pull_request.'' @ ev_Action ev"
  by (auto simp add: gh_NormalizeEvent_def Let_def split: sum.splits if_splits)

lemma bitbucket_other_keys_follow_convention:
  "key \<noteq> ''pullrequest:updated'' \<Longrightarrow>
   fst (mapBitbucketEventKey key) = ''pull_request.'' @ snd (mapBitbucketEventKey key)"
  by (simp add: mapBitbucketEventKey_def)

lemma bitbucket_updated_any_payload:
  "bb_Unmarshal_webhook api payload = Inr p \<Longrightarrow>
   \<exists>ev. fst (bb_NormalizeEvent api now ''pullrequest:updated'' payload) = Inr ev
     \<and> ev_EventType ev = ''pull_request.updated'' \<and> ev_Action ev = ''synchronize''"
  by (simp add: bb_NormalizeEvent_def Let_def mapBitbucketEventKey_def split: sum.splits)

text \<open>
  Claim C7 at the Bitbucket event key \<open>pullrequest:updated\<close>: the event produced has
  \<open>EventType\<close> \<open>pull_request.updated\<close> and \<open>Action\<close> \<open>synchronize\<close>, so \<open>EventType\<close> is
  not \<open>pull_request.\<close> followed by \<open>Action\<close>. The GitHub adapter and the other rows of
  the Bitbucket table do follow the convention.
\<close>

theorem bitbucket_updated_event_type:
  "(case fst (bb_NormalizeEvent (example_bitbucket 7) 0 ''pullrequest:updated'' ''{}'') of
      Inl err \<Rightarrow> None
    | Inr ev \<Rightarrow> Some (ev_EventType ev, ev_Action ev)) =
   Some (''pull_request.updated'', ''synchronize'')"
  by (simp add: bb_NormalizeEvent_def Let_def mapBitbucketEventKey_def example_bitbucket_files
      example_bitbucket_webhook)






section \<open>Properties of the consumption loops\<close>


lemma normalized_loop_append:
  "ConsumeNormalizedEvents_loop u h (xs @ ys) st =
   ConsumeNormalizedEvents_loop u h ys (ConsumeNormalizedEvents_loop u h xs st)"
  by (induction xs arbitrary: st) (simp_all split: sum.splits)

lemma normalized_loop_extends:
  "\<exists>rest. snd (ConsumeNormalizedEvents_loop u h ds st) = snd st @ rest"
proof (induction ds arbitrary: st)
  case Nil
  show ?case by simp
next
  case (Cons d ds)
  show ?case
  proof (cases "u (Body d)")
    case (Inl err)
    from Cons [of "(fst st, snd st @ [Nack (DeliveryTag d) False False])"] Inl
    show ?thesis by auto
  next
    case (Inr msg)
    from Cons [of "(fst (h msg (fst st)),
        snd st @ [HandlerCall msg] @ map HandlerEffect (snd (h msg (fst st))) @
        [HandlerReturn msg] @ [Ack (DeliveryTag d) False])"] Inr
    show ?thesis by auto
  qed
qed

lemma normalized_loop_no_requeue:
  "Nack tag multiple True \<notin> set (snd st) \<Longrightarrow>
   Nack tag multiple True \<notin> set (snd (ConsumeNormalizedEvents_loop u h ds st))"
proof (induction ds arbitrary: st)
  case Nil
  then show ?case by simp
next
  case (Cons d ds)
  show ?case
  proof (cases "u (Body d)")
    case (Inl err)
    have "Nack tag multiple True \<notin> set (snd (fst st, snd st @ [Nack (DeliveryTag d) False False]))"
      using Cons.prems by simp
    from Cons.IH [OF this] Inl show ?thesis by simp
  next
    case (Inr event)
    have "Nack tag multiple True \<notin> set (snd (fst (h event (fst st)),
        snd st @ [HandlerCall event] @ map HandlerEffect (snd (h event (fst st))) @
        [HandlerReturn event] @ [Ack (DeliveryTag d) False]))"
      using Cons.prems by auto
    from Cons.IH [OF this] Inr show ?thesis by simp
  qed
qed








section \<open>Properties of event bus delivery\<close>

lemma DeliverEvent_fails_iff:
  "url \<noteq> '''' \<Longrightarrow>
   (DeliverEvent sink ev url \<noteq> None) =
   (case sink_Marshal sink ev of
      Inl err \<Rightarrow> True
    | Inr body \<Rightarrow>
        (case client_Post sink url body of
           Inl err \<Rightarrow> True
         | Inr resp \<Rightarrow> 400 \<le> sint (fst resp)))"
  by (simp add: DeliverEvent_def split: sum.splits)

text \<open>
  Claim C9, as amended. \<open>DeliverEvent\<close> returns no error when no sink address is
  configured. With an address, it returns an error exactly when the event cannot be
  serialized, the POST fails at the transport level, or the sink answers with a status
  of 400 or more. In the consumer, every delivery that decodes is acknowledged after
  the handler returns, whether or not the delivery to the sink failed (a failure is only
  logged), and no delivery is ever sent back for requeueing.
\<close>

theorem delivery_failure_and_acknowledgment:
  "DeliverEvent sink ev '''' = None
   \<and> (url \<noteq> '''' \<longrightarrow>
        (DeliverEvent sink ev url \<noteq> None) =
        (case sink_Marshal sink ev of
           Inl err \<Rightarrow> True
         | Inr body \<Rightarrow>
             (case client_Post sink url body of
                Inl err \<Rightarrow> True
              | Inr resp \<Rightarrow> 400 \<le> sint (fst resp))))
   \<and> (conn_Channel conn = None \<and> ch_Consume conn normalizedEventsQueue = Inr (pre @ d # post)
        \<and> u (Body d) = Inr event \<longrightarrow>
        (\<exists>before after.
           snd (snd (StartEventBusConsumer conn u sink platformBEURL)) =
             before @ [HandlerCall event] @
             map HandlerEffect (case DeliverEvent sink event platformBEURL of
                                  None \<Rightarrow> [] | Some err \<Rightarrow> [err]) @
             [HandlerReturn event, Ack (DeliveryTag d) False] @ after)
        \<and> (\<forall>tag multiple.
             Nack tag multiple True \<notin> set (snd (snd (StartEventBusConsumer conn u sink platformBEURL)))))"
proof (intro conjI impI)
  show "DeliverEvent sink ev '''' = None"
    by (simp add: DeliverEvent_def)
next
  assume "url \<noteq> ''''"
  then show "(DeliverEvent sink ev url \<noteq> None) =
        (case sink_Marshal sink ev of
           Inl err \<Rightarrow> True
         | Inr body \<Rightarrow>
             (case client_Post sink url body of
                Inl err \<Rightarrow> True
              | Inr resp \<Rightarrow> 400 \<le> sint (fst resp)))"
    by (rule DeliverEvent_fails_iff)
next
  assume a: "conn_Channel conn = None \<and> ch_Consume conn normalizedEventsQueue = Inr (pre @ d # post)
        \<and> u (Body d) = Inr event"
  let ?h = "event_bus_handler sink platformBEURL"
  let ?st = "ConsumeNormalizedEvents_loop u ?h pre ((), [])"
  let ?mid = "[HandlerCall event] @
             map HandlerEffect (case DeliverEvent sink event platformBEURL of
                                  None \<Rightarrow> [] | Some err \<Rightarrow> [err]) @
             [HandlerReturn event, Ack (DeliveryTag d) False]"
  have run: "snd (snd (StartEventBusConsumer conn u sink platformBEURL)) =
      snd (ConsumeNormalizedEvents_loop u ?h post ((), snd ?st @ ?mid))"
    using a
    by (simp add: StartEventBusConsumer_def ConsumeNormalizedEvents_def normalized_loop_append
        event_bus_handler_def split: option.splits)
  obtain rest where "snd (ConsumeNormalizedEvents_loop u ?h post ((), snd ?st @ ?mid)) =
      snd ((), snd ?st @ ?mid) @ rest"
    using normalized_loop_extends by blast
  with run have "snd (snd (StartEventBusConsumer conn u sink platformBEURL)) =
      snd ?st @ ?mid @ rest"
    by simp
  then show "\<exists>before after.
           snd (snd (StartEventBusConsumer conn u sink platformBEURL)) =
             before @ [HandlerCall event] @
             map HandlerEffect (case DeliverEvent sink event platformBEURL of
                                  None \<Rightarrow> [] | Some err \<Rightarrow> [err]) @
             [HandlerReturn event, Ack (DeliveryTag d) False] @ after"
    by (intro exI [of _ "snd ?st"] exI [of _ rest]) simp
next
  assume a: "conn_Channel conn = None \<and> ch_Consume conn normalizedEventsQueue = Inr (pre @ d # post)
        \<and> u (Body d) = Inr event"
  show "\<forall>tag multiple.
             Nack tag multiple True \<notin> set (snd (snd (StartEventBusConsumer conn u sink platformBEURL)))"
    using a normalized_loop_no_requeue [of _ _ "((), [])" u "event_bus_handler sink platformBEURL"]
    by (simp add: StartEventBusConsumer_def ConsumeNormalizedEvents_def)
qed

text \<open>
  The theorem at a sink that answers 500: each delivery fails, is logged and is still
  acknowledged; the body that does not decode is discarded without requeue.
\<close>

theorem delivery_failure_and_acknowledgment_witness:
  "DeliverEvent (example_sink 500) (example_event ''c'') ''http://platform/events'' =
     Some (SinkReturnedError 500 ''http://platform/events'' '''')
   \<and> snd (snd (StartEventBusConsumer example_conn example_unmarshal_event (example_sink 500)
        ''http://platform/events'')) =
     [HandlerCall (example_event ''a''),
      HandlerEffect (SinkReturnedError 500 ''http://platform/events'' ''''),
      HandlerReturn (example_event ''a''),
      Ack 1 False,
      Nack 2 False False,
      HandlerCall (example_event ''c''),
      HandlerEffect (SinkReturnedError 500 ''http://platform/events'' ''''),
      HandlerReturn (example_event ''c''),
      Ack 3 False]"
  using delivery_failure_and_acknowledgment [of "example_sink 500" "example_event ''c''"
      "''http://platform/events''" example_conn
      "[\<lparr> DeliveryTag = 1, Body = ''a'' \<rparr>, \<lparr> DeliveryTag = 2, Body = ''bad'' \<rparr>]"
      "\<lparr> DeliveryTag = 3, Body = ''c'' \<rparr>" "[]" example_unmarshal_event "example_event ''c''"
      "''http://platform/events''"]
  by (simp add: example_conn_def example_deliveries_def example_unmarshal_event_def
      StartEventBusConsumer_def ConsumeNormalizedEvents_def event_bus_handler_def DeliverEvent_def
      example_sink_def)

text \<open>
  Claim C9 as stated fails: a sink that answers 304, which is not a 2xx status, counts
  as a successful delivery.
\<close>

theorem redirect_status_is_success:
  "DeliverEvent (example_sink 304) (example_event ''a'') ''http://platform/events'' = None"
  by (simp add: DeliverEvent_def example_sink_def)

end
